theory Spec2Isabelle
  imports Main
begin

section \<open>JavaScript values at the HTTP boundary\<close>

text \<open>
  The voice-AI service is an Express router (\<^verbatim>\<open>services/voice-ai/src/routes/index.ts\<close>)
  and a socket.io server (\<^verbatim>\<open>server.ts\<close>). A request carries a route parameter
  \<^verbatim>\<open>req.params.id\<close> and a parsed body \<^verbatim>\<open>req.body\<close>. A JavaScript value that may be
  \<^verbatim>\<open>undefined\<close> is a \<open>json option\<close>, with \<open>None\<close> for \<^verbatim>\<open>undefined\<close>.
  An object is an association list in which the first binding of a key is the property.
\<close>

datatype json =
    JNull
  | JBool bool
  | JNum int
  | JStr string
  | JArr "json list"
  | JObj "(string \<times> json) list"

type_synonym js_value = "json option"

datatype js_error = TypeError

text \<open>Property read \<^verbatim>\<open>v.k\<close> on a value that is neither null nor undefined, for the
  keys the handlers use (none of them is a built-in property of a string, number,
  boolean or array).\<close>

fun get_prop :: "json \<Rightarrow> string \<Rightarrow> js_value" where
  "get_prop (JObj kvs) k = map_of kvs k"
| "get_prop _ k = None"

text \<open>Destructuring \<^verbatim>\<open>const { a, b } = v\<close>: a TypeError when \<open>v\<close> is
  \<^verbatim>\<open>undefined\<close> or \<^verbatim>\<open>null\<close>, otherwise the property reads.\<close>

definition destructure :: "js_value \<Rightarrow> js_error + (string \<Rightarrow> js_value)" where
  "destructure v =
     (case v of
        None \<Rightarrow> Inl TypeError
      | Some JNull \<Rightarrow> Inl TypeError
      | Some b \<Rightarrow> Inr (get_prop b))"

text \<open>An object literal as \<^verbatim>\<open>res.json\<close> serialises it: a property whose value is
  \<^verbatim>\<open>undefined\<close> is left out.\<close>

definition object :: "(string \<times> js_value) list \<Rightarrow> json" where
  "object props = JObj (List.map_filter (\<lambda>(k, v). map_option (Pair k) v) props)"

text \<open>The keys of a response body.\<close>

fun field_names :: "json \<Rightarrow> string list" where
  "field_names (JObj kvs) = map fst kvs"
| "field_names _ = []"

text \<open>Template-literal conversion of an integral number, \<^verbatim>\<open>`${n}`\<close>.\<close>

definition digit :: "nat \<Rightarrow> char" where
  "digit d = ''0123456789'' ! d"

fun string_of_nat :: "nat \<Rightarrow> string" where
  "string_of_nat n =
     (if n < 10 then [digit n]
      else string_of_nat (n div 10) @ [digit (n mod 10)])"

declare string_of_nat.simps [simp del]

definition string_of_int :: "int \<Rightarrow> string" where
  "string_of_int i =
     (if i < 0 then CHR ''-'' # string_of_nat (nat (- i)) else string_of_nat (nat i))"

section \<open>Requests, responses, logging\<close>

record request =
  params_id :: string
  body :: js_value

datatype payload = Json json | Text string

text \<open>\<open>content_type\<close> is the media type the handler selects: \<^verbatim>\<open>res.json\<close> selects
  \<^verbatim>\<open>application/json\<close>, \<^verbatim>\<open>res.set('Content-Type', t)\<close> selects \<open>t\<close>. A response whose
  status the handler does not set has Express's default, 200.\<close>

record response =
  statusCode :: nat
  content_type :: string
  payload :: payload

datatype log_level = Info | Error

type_synonym log_entry = "log_level \<times> string"

text \<open>The calls \<^verbatim>\<open>logger.info\<close> and \<^verbatim>\<open>logger.error\<close> of the winston logger return
  normally; a handler's log output is the list of entries it wrote, level and message.\<close>

type_synonym reply = "response \<times> log_entry list"

definition res_json :: "nat \<Rightarrow> json \<Rightarrow> response" where
  "res_json code v = \<lparr>statusCode = code, content_type = ''application/json'', payload = Json v\<rparr>"


definition try_catch :: "(js_error + 'a) \<Rightarrow> (js_error \<Rightarrow> 'a) \<Rightarrow> 'a" where
  "try_catch block handler = (case block of Inl e \<Rightarrow> handler e | Inr r \<Rightarrow> r)"

section \<open>The route handlers\<close>

text \<open>\<open>date_now k\<close> is the value of the \<open>k\<close>-th call of \<^verbatim>\<open>Date.now()\<close> made while the
  handler runs.\<close>

definition post_conversations :: "(nat \<Rightarrow> int) \<Rightarrow> request \<Rightarrow> reply" where
  "post_conversations date_now req =
     try_catch
       (case destructure (body req) of
          Inl e \<Rightarrow> Inl e
        | Inr props \<Rightarrow>
            Inr (res_json 201 (object
                   [(''conversationId'', Some (JStr (''conv-'' @ string_of_int (date_now 0)))),
                    (''status'', Some (JStr ''initialized'')),
                    (''message'', Some (JStr ''Voice AI conversation initiated''))]),
                 [(Info, ''Initializing new conversation'')]))
       (\<lambda>e. (res_json 500 (object [(''error'', Some (JStr ''Failed to initialize conversation''))]),
             [(Error, ''Failed to initialize conversation'')]))"







section \<open>The socket.io connection handler\<close>

text \<open>A connected socket receives \<^verbatim>\<open>voiceStream\<close> events carrying an audio payload of
  any type, and \<^verbatim>\<open>disconnect\<close>. Handling an event yields the events emitted back on
  the socket, name and payload, and the log entries written.\<close>

datatype 'a socket_event = voiceStream 'a | disconnect

definition on_connection :: "string \<Rightarrow> log_entry list" where
  "on_connection socket_id = [(Info, ''Client connected: '' @ socket_id)]"

fun socket_on :: "string \<Rightarrow> 'a socket_event \<Rightarrow> (string \<times> json) list \<times> log_entry list" where
  "socket_on socket_id (voiceStream audioData) =
     ([(''aiResponse'', object [(''message'', Some (JStr ''Voice data received''))])], [])"
| "socket_on socket_id disconnect =
     ([], [(Info, ''Client disconnected: '' @ socket_id)])"

section \<open>The Session Registry\<close>

text \<open>
  The router and the socket server above are all the code the service has: no handler
  keeps a session, and the repository contains no implementation of the Session Registry
  of sections 3 and 4.1 of the specification (\<^verbatim>\<open>createSession\<close>, \<^verbatim>\<open>appendUtterance\<close>,
  \<^verbatim>\<open>transition\<close>, \<^verbatim>\<open>getSession\<close>). The definitions of this section follow the
  specification's words instead of code. Time is a natural number of clock ticks passed
  to each operation; a session's identifier is its position in the registry's list of
  sessions, which only ever grows.
\<close>

text \<open>Modelled from the spec: the enumerations of section 3 (\<^verbatim>\<open>channel\<close>, \<^verbatim>\<open>status\<close>,
  \<^verbatim>\<open>speaker\<close>), the scalar values of \<^verbatim>\<open>metadata\<close> and the error taxonomy of section 7;
  the repository declares none of them.\<close>

datatype channel = voice | chat | sms | email | web

datatype session_status = initializing | active | completing | completed | failed

datatype speaker = agent | customer | system

datatype scalar = ScalarStr string | ScalarNum int | ScalarBool bool

datatype registry_error =
    NotFoundError
  | ConflictError
  | InvalidStateError
  | InvalidTransitionError
  | ValidationError
  | TimeoutError

text \<open>Modelled from the spec: the \<^verbatim>\<open>Session\<close> entity of section 3, which the repository
  does not declare. \<open>transcriptSeq\<close> is the sequence number the next accepted utterance
  gets.\<close>

record session =
  session_id :: nat
  channel :: channel
  status :: session_status
  startedAt :: nat
  endedAt :: "nat option"
  participantRef :: string
  transcriptSeq :: nat
  metadata :: "(string \<times> scalar) list"

text \<open>Modelled from the spec: the events that drive the state machine of section 4.1,
  absent from the repository. \<open>Attached\<close> is the first successful transport attach,
  \<open>EndRequested\<close> an explicit end request, \<open>Disconnected\<close> the channel-level
  termination signal, \<open>Drained\<close> the confirmation that the transport has fully drained,
  \<open>TransportError\<close> an unrecoverable transport error and \<open>AttachTimeout\<close> the timeout
  waiting for attach.\<close>

datatype event =
    Attached
  | EndRequested
  | Disconnected
  | Drained
  | TransportError
  | AttachTimeout

text \<open>Modelled from the spec: the events handed to the Event Fan-out (section 4.1, side
  effects), absent from the repository: an accepted utterance with its session, seq,
  speaker, text and time, or a session's new status.\<close>

datatype publication =
    UtteranceEvent nat nat speaker string nat
  | StatusEvent nat session_status

text \<open>Modelled from the spec: the registry's state, the authoritative store of sessions
  of section 2 together with what it has published; the repository has no such store.\<close>

record registry =
  sessions :: "session list"
  published :: "publication list"

definition empty_registry :: registry where
  "empty_registry = \<lparr>sessions = [], published = []\<rparr>"

text \<open>Modelled from the spec: the terminal states of section 4.1, \<^verbatim>\<open>{completed, failed}\<close>;
  not in the repository.\<close>

definition is_terminal :: "session_status \<Rightarrow> bool" where
  "is_terminal st = (st = completed \<or> st = failed)"

text \<open>Modelled from the spec: the transitions of section 4.1 out of a non-terminal
  state, absent from the repository: initializing to active on attach, active to
  completing on an end request or a termination signal, completing to completed on
  drain, and any non-terminal state to failed on a transport error or an attach
  timeout. Every other pair of state and event is illegal.\<close>

fun advance :: "session_status \<Rightarrow> event \<Rightarrow> session_status option" where
  "advance initializing Attached = Some active"
| "advance active EndRequested = Some completing"
| "advance active Disconnected = Some completing"
| "advance completing Drained = Some completed"
| "advance st TransportError = (if is_terminal st then None else Some failed)"
| "advance st AttachTimeout = (if is_terminal st then None else Some failed)"
| "advance st e = None"

text \<open>Modelled from the spec: the terminal state a terminal event leads to (section
  4.1), absent from the repository. A terminal event matches a terminal session when
  this is the session's status; the other events are not terminal.\<close>

fun outcome :: "event \<Rightarrow> session_status option" where
  "outcome Drained = Some completed"
| "outcome TransportError = Some failed"
| "outcome AttachTimeout = Some failed"
| "outcome e = None"

text \<open>Modelled from the spec: \<^verbatim>\<open>getSession(sessionId)\<close> of section 4.1, not implemented in
  the repository: it fails with \<open>NotFoundError\<close> if the session is absent.\<close>

definition getSession :: "nat \<Rightarrow> registry \<Rightarrow> registry_error + session" where
  "getSession sid r =
     (if sid < length (sessions r) then Inr (sessions r ! sid) else Inl NotFoundError)"

text \<open>Modelled from the spec: \<^verbatim>\<open>createSession(channel, participantRef, metadata)\<close> of
  section 4.1, not implemented in the repository: it fails with \<open>ConflictError\<close> if an
  active session already exists for the pair, otherwise it allocates the id, sets
  \<open>initializing\<close> and records \<open>startedAt\<close>. A session counts as active here while it
  is not terminal, as sections 3 and 8 use the word (the second of two calls conflicts
  while the first session is still initializing).\<close>

definition createSession ::
  "nat \<Rightarrow> channel \<Rightarrow> string \<Rightarrow> (string \<times> scalar) list \<Rightarrow> registry
     \<Rightarrow> (registry_error + session) \<times> registry" where
  "createSession now ch p m r =
     (if \<exists>s \<in> set (sessions r).
           channel s = ch \<and> participantRef s = p \<and> \<not> is_terminal (status s)
      then (Inl ConflictError, r)
      else
        (let s = \<lparr>session_id = length (sessions r), channel = ch, status = initializing,
                  startedAt = now, endedAt = None, participantRef = p, transcriptSeq = 0,
                  metadata = m\<rparr>
         in (Inr s, r\<lparr>sessions := sessions r @ [s]\<rparr>)))"

text \<open>Modelled from the spec: \<^verbatim>\<open>appendUtterance(sessionId, speaker, text)\<close> of section
  4.1, not implemented in the repository: \<open>NotFoundError\<close> if the session is unknown,
  \<open>InvalidStateError\<close> if it is not active, otherwise the next seq is assigned,
  returned and published in one step.\<close>

definition appendUtterance ::
  "nat \<Rightarrow> nat \<Rightarrow> speaker \<Rightarrow> string \<Rightarrow> registry \<Rightarrow> (registry_error + nat) \<times> registry" where
  "appendUtterance now sid sp txt r =
     (case getSession sid r of
        Inl err \<Rightarrow> (Inl err, r)
      | Inr s \<Rightarrow>
          if status s \<noteq> active then (Inl InvalidStateError, r)
          else
            (let n = transcriptSeq s
             in (Inr n,
                 r\<lparr>sessions := (sessions r)[sid := s\<lparr>transcriptSeq := Suc n\<rparr>],
                   published := published r @ [UtteranceEvent sid n sp txt now]\<rparr>)))"

text \<open>Modelled from the spec: \<^verbatim>\<open>transition(sessionId, event)\<close> of section 4.1, not
  implemented in the repository. On a terminal session the redelivery of the matching
  terminal event changes nothing and returns the session, and every other event fails
  with \<open>InvalidTransitionError\<close>; on a non-terminal session the state machine is
  applied, \<open>endedAt\<close> is set when the new state is terminal, and the new status is
  published.\<close>

definition transition ::
  "nat \<Rightarrow> nat \<Rightarrow> event \<Rightarrow> registry \<Rightarrow> (registry_error + session) \<times> registry" where
  "transition now sid e r =
     (case getSession sid r of
        Inl err \<Rightarrow> (Inl err, r)
      | Inr s \<Rightarrow>
          if is_terminal (status s) then
            (if outcome e = Some (status s) then (Inr s, r)
             else (Inl InvalidTransitionError, r))
          else
            (case advance (status s) e of
               None \<Rightarrow> (Inl InvalidTransitionError, r)
             | Some st \<Rightarrow>
                 (let s' = s\<lparr>status := st,
                            endedAt := (if is_terminal st then Some now else endedAt s)\<rparr>
                  in (Inr s',
                      r\<lparr>sessions := (sessions r)[sid := s'],
                        published := published r @ [StatusEvent sid st]\<rparr>))))"

subsection \<open>Sequences of registry calls\<close>

text \<open>A caller's view of the registry: a list of timed calls, each answered with an
  error, a session or a sequence number. \<open>run\<close> performs the calls in order.\<close>

datatype operation =
    CreateSession channel string "(string \<times> scalar) list"
  | AppendUtterance nat speaker string
  | Transition nat event
  | GetSession nat

datatype answer = SessionAnswer session | SeqAnswer nat

definition answering ::
  "('a \<Rightarrow> answer) \<Rightarrow> (registry_error + 'a) \<times> registry
     \<Rightarrow> (registry_error + answer) \<times> registry" where
  "answering f res = (map_sum id f (fst res), snd res)"

fun perform :: "nat \<Rightarrow> operation \<Rightarrow> registry \<Rightarrow> (registry_error + answer) \<times> registry" where
  "perform now (CreateSession ch p m) r = answering SessionAnswer (createSession now ch p m r)"
| "perform now (AppendUtterance sid sp txt) r =
     answering SeqAnswer (appendUtterance now sid sp txt r)"
| "perform now (Transition sid e) r = answering SessionAnswer (transition now sid e r)"
| "perform now (GetSession sid) r = answering SessionAnswer (getSession sid r, r)"

fun run ::
  "(nat \<times> operation) list \<Rightarrow> registry \<Rightarrow> (registry_error + answer) list \<times> registry" where
  "run [] r = ([], r)"
| "run ((now, opn) # ops) r =
     (let (a, r1) = perform now opn r; (as, r2) = run ops r1 in (a # as, r2))"

text \<open>The sequence numbers that the accepted \<open>AppendUtterance\<close> calls on session \<open>sid\<close>
  returned, in call order.\<close>

fun accepted_seqs ::
  "nat \<Rightarrow> (nat \<times> operation) list \<Rightarrow> (registry_error + answer) list \<Rightarrow> nat list" where
  "accepted_seqs sid ((now, AppendUtterance sid' sp txt) # ops) (Inr (SeqAnswer n) # as) =
     (if sid' = sid then n # accepted_seqs sid ops as else accepted_seqs sid ops as)"
| "accepted_seqs sid (opn # ops) (a # as) = accepted_seqs sid ops as"
| "accepted_seqs sid ops as = []"

text \<open>Two auxiliary notions for the proofs: what every registry call keeps of a session
  (its id, channel and participant, and having left \<open>initializing\<close>), and the sequence
  number a session would assign next (0 for a session not created yet).\<close>

definition kept :: "session \<Rightarrow> session \<Rightarrow> bool" where
  "kept s s' =
     (session_id s' = session_id s \<and> channel s' = channel s
      \<and> participantRef s' = participantRef s
      \<and> (status s \<noteq> initializing \<longrightarrow> status s' \<noteq> initializing))"

definition next_seq :: "registry \<Rightarrow> nat \<Rightarrow> nat" where
  "next_seq r sid = (if sid < length (sessions r) then transcriptSeq (sessions r ! sid) else 0)"

text \<open>A call that ran its course, for concrete runs: created, attached, one utterance,
  disconnected and drained.\<close>

definition finished_call :: session where
  "finished_call =
     \<lparr>session_id = 0, channel = voice, status = completed, startedAt = 10,
      endedAt = Some 14, participantRef = ''+15551234567'', transcriptSeq = 1,
      metadata = []\<rparr>"

definition finished_registry :: registry where
  "finished_registry =
     \<lparr>sessions = [finished_call],
      published = [StatusEvent 0 active, UtteranceEvent 0 0 customer ''hello'' 12,
                   StatusEvent 0 completing, StatusEvent 0 completed]\<rparr>"

text \<open>Calls on two sessions, interleaved: an utterance before attach, one for a session
  that does not exist, and two accepted utterances on session 0.\<close>

definition interleaved_calls :: "(nat \<times> operation) list" where
  "interleaved_calls =
     [(10, CreateSession voice ''+15551234567'' []),
      (11, AppendUtterance 0 agent ''too early''),
      (12, Transition 0 Attached),
      (13, CreateSession chat ''cust-9'' []),
      (14, AppendUtterance 0 customer ''hello''),
      (15, AppendUtterance 1 customer ''hi''),
      (16, AppendUtterance 0 agent ''how can I help?''),
      (17, AppendUtterance 2 agent ''nobody'')]"

text \<open>A clock that shows the same instant at every reading, for concrete runs.\<close>

definition steady_clock :: "int \<Rightarrow> nat \<Rightarrow> int" where
  "steady_clock t k = t"

section \<open>Properties of the route handlers\<close>


lemma destructure_present:
  "b \<noteq> JNull \<Longrightarrow> destructure (Some b) = Inr (get_prop b)"
  by (cases b) (simp_all add: destructure_def)












text \<open>
  C8. For every request \<^verbatim>\<open>POST /conversations\<close> that has a body (customerId, phoneNumber
  and initialContext, or any other value but null), the response has status 201 and a
  JSON body with exactly the fields conversationId, status and message: the id is
  \<^verbatim>\<open>conv-\<close> followed by the clock reading, the status is \<^verbatim>\<open>initialized\<close>.
\<close>

theorem post_conversations_created:
  assumes "body req = Some b" and "b \<noteq> JNull"
  shows "fst (post_conversations date_now req) =
           res_json 201 (JObj
             [(''conversationId'', JStr (''conv-'' @ string_of_int (date_now 0))),
              (''status'', JStr ''initialized''),
              (''message'', JStr ''Voice AI conversation initiated'')])
         \<and> statusCode (fst (post_conversations date_now req)) = 201
         \<and> (\<exists>v. payload (fst (post_conversations date_now req)) = Json v
               \<and> field_names v = [''conversationId'', ''status'', ''message''])"
  using assms
  by (simp add: post_conversations_def destructure_present try_catch_def res_json_def
        object_def List.map_filter_def)

theorem post_conversations_created_witness:
  "fst (post_conversations (steady_clock 1712)
      \<lparr>params_id = [],
       body = Some (JObj [(''customerId'', JStr ''c-1''), (''phoneNumber'', JStr ''+15551234567''),
                          (''initialContext'', JObj [])])\<rparr>)
     = \<lparr>statusCode = 201, content_type = ''application/json'',
        payload = Json (JObj [(''conversationId'', JStr ''conv-1712''),
          (''status'', JStr ''initialized''),
          (''message'', JStr ''Voice AI conversation initiated'')])\<rparr>"
  using post_conversations_created [of
      "\<lparr>params_id = [],
        body = Some (JObj [(''customerId'', JStr ''c-1''), (''phoneNumber'', JStr ''+15551234567''),
                           (''initialContext'', JObj [])])\<rparr>"
      "JObj [(''customerId'', JStr ''c-1''), (''phoneNumber'', JStr ''+15551234567''),
             (''initialContext'', JObj [])]"
      "steady_clock 1712"]
  by (simp add: steady_clock_def res_json_def string_of_int_def string_of_nat.simps digit_def)


text \<open>
  C10. For every \<^verbatim>\<open>voiceStream\<close> event on a socket, the server emits exactly one event,
  \<^verbatim>\<open>aiResponse\<close> with the payload \<^verbatim>\<open>{message: 'Voice data received'}\<close>, and writes no
  log entry. The reaction does not depend on the audio payload (nor on the socket): any
  two frames produce identical output.
\<close>

theorem voiceStream_constant_response:
  "socket_on socket_id (voiceStream audioData) =
     ([(''aiResponse'', JObj [(''message'', JStr ''Voice data received'')])], [])
   \<and> length (fst (socket_on socket_id (voiceStream audioData))) = 1
   \<and> socket_on socket_id (voiceStream audioData) = socket_on socket_id' (voiceStream audioData')"
  by (simp add: object_def List.map_filter_def)

section \<open>Properties of the Session Registry\<close>

lemma advance_not_initializing: "advance st e = Some st' \<Longrightarrow> st' \<noteq> initializing"
  by (cases st; cases e) (auto split: if_splits)


lemma kept_refl: "kept s s"
  by (simp add: kept_def)

lemma kept_trans: "kept s s' \<Longrightarrow> kept s' s'' \<Longrightarrow> kept s s''"
  by (auto simp: kept_def)

subsection \<open>What the calls keep of the sessions already there\<close>

lemma createSession_keeps:
  "i < length (sessions r) \<Longrightarrow>
   i < length (sessions (snd (createSession now ch p m r)))
   \<and> sessions (snd (createSession now ch p m r)) ! i = sessions r ! i"
  by (simp add: createSession_def Let_def nth_append)

lemma appendUtterance_keeps:
  "i < length (sessions r) \<Longrightarrow>
   i < length (sessions (snd (appendUtterance now sid sp tx r)))
   \<and> kept (sessions r ! i) (sessions (snd (appendUtterance now sid sp tx r)) ! i)"
  by (auto simp: appendUtterance_def getSession_def Let_def kept_def nth_list_update)

lemma transition_keeps:
  "i < length (sessions r) \<Longrightarrow>
   i < length (sessions (snd (transition now sid e r)))
   \<and> kept (sessions r ! i) (sessions (snd (transition now sid e r)) ! i)"
  by (auto simp: transition_def getSession_def Let_def kept_def nth_list_update
        split: option.splits dest: advance_not_initializing)

lemma perform_keeps:
  "i < length (sessions r) \<Longrightarrow>
   i < length (sessions (snd (perform now opn r)))
   \<and> kept (sessions r ! i) (sessions (snd (perform now opn r)) ! i)"
  by (cases opn)
     (simp_all add: answering_def createSession_keeps appendUtterance_keeps transition_keeps
        kept_refl)

lemma run_keeps:
  "i < length (sessions r) \<Longrightarrow>
   i < length (sessions (snd (run ops r)))
   \<and> kept (sessions r ! i) (sessions (snd (run ops r)) ! i)"
proof (induction ops arbitrary: r)
  case Nil
  then show ?case by (simp add: kept_refl)
next
  case (Cons x ops)
  obtain now opn where x: "x = (now, opn)" by (cases x)
  let ?r1 = "snd (perform now opn r)"
  from Cons.prems have 1: "i < length (sessions ?r1)"
    and 2: "kept (sessions r ! i) (sessions ?r1 ! i)"
    using perform_keeps by blast+
  from Cons.IH [OF 1] 2 show ?case
    by (auto simp: x split: prod.splits intro: kept_trans)
qed

subsection \<open>How the calls move a session's next sequence number\<close>

lemma createSession_next_seq:
  "next_seq (snd (createSession now ch p m r)) sid = next_seq r sid"
  by (auto simp: createSession_def next_seq_def Let_def nth_append)

lemma transition_next_seq:
  "next_seq (snd (transition now i e r)) sid = next_seq r sid"
  by (auto simp: transition_def getSession_def next_seq_def Let_def nth_list_update
        split: option.splits)

lemma appendUtterance_next_seq:
  "appendUtterance now i sp tx r = (a, r') \<Longrightarrow>
   (case a of
      Inl err \<Rightarrow> r' = r
    | Inr n \<Rightarrow> n = next_seq r i \<and> next_seq r' i = Suc n
        \<and> (sid \<noteq> i \<longrightarrow> next_seq r' sid = next_seq r sid))"
  by (auto simp: appendUtterance_def getSession_def next_seq_def Let_def nth_list_update
        split: if_splits sum.splits)

text \<open>One call either returns no sequence number for \<open>sid\<close> and leaves its counter, or
  returns the counter and advances it by one.\<close>

lemma perform_step:
  assumes "perform now opn r = (a, r1)"
  shows "(accepted_seqs sid ((now, opn) # ops) (a # as) = accepted_seqs sid ops as
            \<and> next_seq r1 sid = next_seq r sid)
         \<or> (accepted_seqs sid ((now, opn) # ops) (a # as)
              = next_seq r sid # accepted_seqs sid ops as
            \<and> next_seq r1 sid = Suc (next_seq r sid))"
proof (cases opn)
  case (CreateSession ch pr m)
  with assms createSession_next_seq [of now ch pr m r sid] show ?thesis
    by (cases "fst (createSession now ch pr m r)") (auto simp: answering_def)
next
  case (AppendUtterance i sp tx)
  obtain b where b: "appendUtterance now i sp tx r = (b, r1)"
    and a: "a = map_sum id SeqAnswer b"
    using assms
    by (cases "appendUtterance now i sp tx r") (simp add: AppendUtterance answering_def)
  show ?thesis
  proof (cases b)
    case (Inl err)
    with appendUtterance_next_seq [OF b, of sid] show ?thesis
      by (simp add: AppendUtterance a)
  next
    case (Inr n)
    with appendUtterance_next_seq [OF b, of sid] show ?thesis
      by (auto simp: AppendUtterance a)
  qed
next
  case (Transition i e)
  with assms transition_next_seq [of now i e r sid] show ?thesis
    by (cases "fst (transition now i e r)") (auto simp: answering_def)
next
  case (GetSession i)
  with assms show ?thesis
    by (cases "getSession i r") (auto simp: answering_def)
qed

lemma run_seqs:
  "accepted_seqs sid ops (fst (run ops r)) = [next_seq r sid ..< next_seq (snd (run ops r)) sid]
   \<and> next_seq r sid \<le> next_seq (snd (run ops r)) sid"
proof (induction ops arbitrary: r)
  case Nil
  then show ?case by simp
next
  case (Cons x ops)
  obtain now opn where x: "x = (now, opn)" by (cases x)
  obtain a r1 where p: "perform now opn r = (a, r1)" by (cases "perform now opn r")
  obtain as r2 where rr: "run ops r1 = (as, r2)" by (cases "run ops r1")
  have whole: "run ((now, opn) # ops) r = (a # as, r2)"
    by (simp add: p rr)
  from Cons.IH [of r1] rr
  have ih: "accepted_seqs sid ops as = [next_seq r1 sid ..< next_seq r2 sid]"
    and le: "next_seq r1 sid \<le> next_seq r2 sid"
    by simp_all
  from perform_step [OF p, of sid ops as] ih le show ?case
    unfolding x whole by (auto simp: upt_conv_Cons)
qed

lemmas registry_defs =
  createSession_def appendUtterance_def transition_def getSession_def answering_def
  is_terminal_def empty_registry_def finished_call_def finished_registry_def Let_def

text \<open>Concrete runs are evaluated call by call with this rule.\<close>

lemma run_Cons_eq:
  "perform now opn r = (a, r1) \<Longrightarrow> run ops r1 = (as, r2)
   \<Longrightarrow> run ((now, opn) # ops) r = (a # as, r2)"
  by simp

text \<open>The scenario of section 8 of the specification, call by call: created
  \<open>initializing\<close>, attached \<open>active\<close>, the first utterance gets seq 0, detached
  \<open>completing\<close> then \<open>completed\<close>, and a later utterance is refused.\<close>

lemma registry_scenario:
  "run [(10, CreateSession voice ''+15551234567'' []),
        (11, Transition 0 Attached),
        (12, AppendUtterance 0 customer ''hello''),
        (13, Transition 0 Disconnected),
        (14, Transition 0 Drained),
        (15, AppendUtterance 0 customer ''again'')] empty_registry
   = ([Inr (SessionAnswer (finished_call\<lparr>status := initializing, endedAt := None,
                                           transcriptSeq := 0\<rparr>)),
       Inr (SessionAnswer (finished_call\<lparr>status := active, endedAt := None,
                                           transcriptSeq := 0\<rparr>)),
       Inr (SeqAnswer 0),
       Inr (SessionAnswer (finished_call\<lparr>status := completing, endedAt := None\<rparr>)),
       Inr (SessionAnswer finished_call),
       Inl InvalidStateError],
      finished_registry)"
  apply (rule run_Cons_eq, simp add: registry_defs)+
  apply (simp add: registry_defs)
  done

text \<open>
  C4. For every channel and participant: when \<open>createSession\<close> has created a session for
  the pair and, after any further registry calls, that session is still not terminal, a
  second \<open>createSession\<close> for the same pair (whatever its metadata and time) fails with
  \<open>ConflictError\<close> and leaves the registry as it was, so no session is created.
\<close>

theorem second_createSession_conflicts:
  assumes "createSession t1 ch p m r = (Inr s, r1)"
      and "run ops r1 = (answers, r2)"
      and "getSession (session_id s) r2 = Inr s2"
      and "\<not> is_terminal (status s2)"
  shows "createSession t2 ch p m' r2 = (Inl ConflictError, r2)"
proof -
  let ?i = "length (sessions r)"
  from assms(1) have s: "session_id s = ?i" "channel s = ch" "participantRef s = p"
    and r1: "?i < length (sessions r1)" "sessions r1 ! ?i = s"
    by (auto simp: createSession_def Let_def split: if_splits)
  from run_keeps [OF r1(1), of ops] assms(2)
  have i2: "?i < length (sessions r2)" and k: "kept s (sessions r2 ! ?i)"
    by (simp_all add: r1(2))
  from assms(3) i2 have s2: "s2 = sessions r2 ! ?i"
    by (simp add: getSession_def s(1))
  from k s2 s have "channel s2 = ch" "participantRef s2 = p"
    by (simp_all add: kept_def)
  moreover from i2 s2 have "s2 \<in> set (sessions r2)"
    by simp
  ultimately show ?thesis
    using assms(4) by (auto simp: createSession_def)
qed

theorem second_createSession_conflicts_witness:
  "createSession 12 voice ''+15551234567'' [(''callSid'', ScalarStr ''CA2'')]
     \<lparr>sessions = [finished_call\<lparr>status := active, endedAt := None, transcriptSeq := 0\<rparr>],
      published = [StatusEvent 0 active]\<rparr>
   = (Inl ConflictError,
      \<lparr>sessions = [finished_call\<lparr>status := active, endedAt := None, transcriptSeq := 0\<rparr>],
       published = [StatusEvent 0 active]\<rparr>)"
proof -
  let ?s0 = "finished_call\<lparr>status := initializing, endedAt := None, transcriptSeq := 0\<rparr>"
  let ?s1 = "finished_call\<lparr>status := active, endedAt := None, transcriptSeq := 0\<rparr>"
  let ?r2 = "\<lparr>sessions = [?s1], published = [StatusEvent 0 active]\<rparr>"
  have 1: "createSession 10 voice ''+15551234567'' [] empty_registry
             = (Inr ?s0, \<lparr>sessions = [?s0], published = []\<rparr>)"
    by (simp add: registry_defs)
  have 2: "run [(11, Transition 0 Attached)] \<lparr>sessions = [?s0], published = []\<rparr>
             = ([Inr (SessionAnswer ?s1)], ?r2)"
    by (simp add: registry_defs)
  have 3: "getSession (session_id ?s0) ?r2 = Inr ?s1"
    by (simp add: registry_defs)
  have 4: "\<not> is_terminal (status ?s1)"
    by (simp add: registry_defs)
  show ?thesis
    by (rule second_createSession_conflicts [OF 1 2 3 4])
qed

text \<open>
  C5. For every session and every sequence of registry calls made on a fresh registry,
  the seq values returned by the accepted \<open>appendUtterance\<close> calls on that session are,
  in call order, 0, 1, 2, ...: they start at 0 and are strictly increasing without gaps.
\<close>

theorem utterance_seqs_gapless:
  "accepted_seqs sid ops (fst (run ops empty_registry))
     = [0 ..< length (accepted_seqs sid ops (fst (run ops empty_registry)))]
   \<and> sorted_wrt (<) (accepted_seqs sid ops (fst (run ops empty_registry)))"
proof -
  have "next_seq empty_registry sid = 0"
    by (simp add: next_seq_def empty_registry_def)
  with run_seqs [of sid ops empty_registry]
  have "accepted_seqs sid ops (fst (run ops empty_registry))
          = [0 ..< next_seq (snd (run ops empty_registry)) sid]"
    by simp
  then show ?thesis
    by simp
qed

theorem utterance_seqs_gapless_witness:
  "accepted_seqs 0 interleaved_calls (fst (run interleaved_calls empty_registry)) = [0, 1]
   \<and> sorted_wrt (<)
        (accepted_seqs 0 interleaved_calls (fst (run interleaved_calls empty_registry)))"
proof -
  have "\<exists>s0 s1 s2 r. run interleaved_calls empty_registry =
          ([Inr (SessionAnswer s0), Inl InvalidStateError, Inr (SessionAnswer s1),
            Inr (SessionAnswer s2), Inr (SeqAnswer 0), Inl InvalidStateError,
            Inr (SeqAnswer 1), Inl NotFoundError], r)"
    unfolding interleaved_calls_def
    apply (intro exI)
    apply (rule run_Cons_eq, simp add: registry_defs)+
    apply (rule run.simps(1))
    done
  then have two: "length (accepted_seqs 0 interleaved_calls
                    (fst (run interleaved_calls empty_registry))) = 2"
    by (auto simp: interleaved_calls_def)
  have "[0 ..< (2::nat)] = [0, 1]"
    by (simp add: upt_rec)
  with utterance_seqs_gapless [of 0 interleaved_calls] show ?thesis
    unfolding two by simp
qed



end
